theory Spec2Isabelle
  imports Complex_Main "HOL-Library.Multiset"
begin

section \<open>Floats, instants and price series\<close>

text \<open>
  The program \<^verbatim>\<open>generate.py\<close> computes with Python floats. A float is modelled
  as a real number or the not-a-number value that \<^verbatim>\<open>pd.isna\<close> and
  \<^verbatim>\<open>dropna\<close> test for. Rounding to double precision is modelled where a
  statement depends on it, in the hypothetical return of the portfolio (section
  \<open>Rounding to double precision\<close>); elsewhere an operation gives the exact real
  number. Infinities appear only as cells of the column \<^verbatim>\<open>ActualPerfNum\<close>.
  An instant (a pandas \<^verbatim>\<open>Timestamp\<close>, a \<^verbatim>\<open>datetime\<close>) is an integer
  number of nanoseconds, and \<open>day\<close> is the length of one day.
  A \<^verbatim>\<open>pd.Series\<close> of closes is the list of its (date, close) pairs in index order.
\<close>

datatype pyfloat = Val real | NaN

type_synonym instant = int

definition day :: int where
  "day = 86400000000000"

type_synonym series = "(instant \<times> pyfloat) list"

subsection \<open>The return over one window (lines 102 to 117)\<close>

text \<open>
  \<^verbatim>\<open>s.sort_index()\<close> orders the pairs by date. pandas does not promise a stable
  sort; the model sorts stably, which is the same series whenever the dates are
  distinct.
\<close>

definition sort_index :: "series \<Rightarrow> series" where
  "sort_index s = sort_key fst s"

text \<open>
  \<^verbatim>\<open>int(months * 30.5)\<close>: the product is exact in floating point for every
  integer of plausible size, and \<^verbatim>\<open>int\<close> truncates towards zero.
\<close>

definition months_days :: "int \<Rightarrow> int" where
  "months_days months =
     (if 0 \<le> months then (months * 61) div 2 else - ((- months * 61) div 2))"

text \<open>\<^verbatim>\<open>target_dt = datetime.now() - timedelta(days=int(months * 30.5))\<close>\<close>

definition target_dt :: "instant \<Rightarrow> int \<Rightarrow> instant" where
  "target_dt now months = now - months_days months * day"

text \<open>
  \<^verbatim>\<open>Index.searchsorted\<close> (side left) on an ascending index: the position of the
  first date that is not before the target, the length when every date is before it.
\<close>

definition searchsorted :: "instant list \<Rightarrow> instant \<Rightarrow> nat" where
  "searchsorted ds t = length (takeWhile (\<lambda>d. d < t) ds)"

text \<open>
  Lines 110 to 112, repeated at lines 223 to 225:
  \<^verbatim>\<open>idx = s.index.searchsorted(...); if idx >= len(s): idx = len(s) - 1\<close>
\<close>

definition ref_index :: "instant list \<Rightarrow> instant \<Rightarrow> nat" where
  "ref_index ds t =
     (let idx = searchsorted ds t in if idx \<ge> length ds then length ds - 1 else idx)"

text \<open>\<^verbatim>\<open>(s.index[-1] - s.index[0]).days\<close>: whole days, rounded down.\<close>

definition days_span :: "series \<Rightarrow> int" where
  "days_span s = (fst (last s) - fst (hd s)) div day"

text \<open>
  \<^verbatim>\<open>_window_return_from_series(s, months, min_days_required)\<close>, with the clock
  reading \<^verbatim>\<open>datetime.now()\<close> as the parameter \<open>now\<close>. The series argument may be
  \<^verbatim>\<open>None\<close>.
\<close>

definition window_return_from_series ::
    "instant \<Rightarrow> series option \<Rightarrow> int \<Rightarrow> int \<Rightarrow> real option" where
  "window_return_from_series now so months min_days_required =
     (case so of
        None \<Rightarrow> None
      | Some s0 \<Rightarrow>
          if s0 = [] then None
          else
            let s = sort_index s0 in
            (case snd (last s) of
               NaN \<Rightarrow> None
             | Val lst \<Rightarrow>
                 let idx = ref_index (map fst s) (target_dt now months);
                     ref = snd (s ! idx);
                     span = days_span s
                 in (case ref of
                       NaN \<Rightarrow> None
                     | Val r \<Rightarrow>
                         if span < min_days_required \<or> r = 0 then None
                         else Some ((lst - r) / r))))"

section \<open>Histories and close-price extraction (lines 79 to 100)\<close>

text \<open>
  A \<^verbatim>\<open>pd.DataFrame\<close> is its list of column labels and its rows in index order, each
  row a date and the cell under every label (a missing cell is \<open>NaN\<close>). Column labels
  are taken to be distinct. A history has either plain labels (one column per field)
  or two-level labels, a field and a symbol (a \<^verbatim>\<open>MultiIndex\<close>, the only columns
  with the attribute \<^verbatim>\<open>levels\<close>). The first level of such labels,
  \<^verbatim>\<open>cols.levels[0]\<close>, holds the fields of the columns and may hold further labels
  that no column carries (a level keeps the labels of columns that were selected
  away): these are the first argument of \<open>Nested\<close>.
\<close>

record 'l frame =
  columns :: "'l list"
  rows :: "(instant \<times> ('l \<Rightarrow> pyfloat)) list"

datatype hist = Flat "string frame" | Nested "string list" "(string \<times> string) frame"

datatype exn =
  KeyError | IndexError | TypeError | ZeroDivisionError | UnboundLocalError | ProviderError

text \<open>\<^verbatim>\<open>df.empty\<close>: no row or no column.\<close>

definition frame_empty :: "'l frame \<Rightarrow> bool" where
  "frame_empty h = (rows h = [] \<or> columns h = [])"

text \<open>\<^verbatim>\<open>hist[label]\<close> on plain labels: the column as a series.\<close>

definition getitem_flat :: "string frame \<Rightarrow> string \<Rightarrow> exn + series" where
  "getitem_flat h label =
     (if label \<in> set (columns h)
      then Inr (map (\<lambda>(d, cells). (d, cells label)) (rows h))
      else Inl KeyError)"

text \<open>
  \<^verbatim>\<open>hist[label]\<close> on two-level labels: a \<^verbatim>\<open>KeyError\<close> when no column has the field;
  otherwise the frame of that field's columns, one per symbol, except that pandas
  hands back a series when the field has a single column whose symbol is the empty
  string.
\<close>

datatype selection = SelFrame "string frame" | SelSeries series

definition getitem_nested :: "(string \<times> string) frame \<Rightarrow> string \<Rightarrow> exn + selection" where
  "getitem_nested h label =
     (if label \<in> set (map fst (columns h)) then
        (let syms = map snd (filter (\<lambda>c. fst c = label) (columns h)) in
         if syms = [[]]
         then Inr (SelSeries (map (\<lambda>(d, cells). (d, cells (label, []))) (rows h)))
         else Inr (SelFrame \<lparr>columns = syms,
                     rows = map (\<lambda>(d, cells). (d, \<lambda>c. cells (label, c))) (rows h)\<rparr>))
      else Inl KeyError)"

text \<open>\<^verbatim>\<open>Series.dropna()\<close> and \<^verbatim>\<open>DataFrame.dropna()\<close> (a row goes when any cell is missing).\<close>

definition series_dropna :: "series \<Rightarrow> series" where
  "series_dropna s = filter (\<lambda>(d, v). v \<noteq> NaN) s"

definition frame_dropna :: "'l frame \<Rightarrow> 'l frame" where
  "frame_dropna h =
     h\<lparr>rows := filter (\<lambda>(d, cells). list_all (\<lambda>l. cells l \<noteq> NaN) (columns h)) (rows h)\<rparr>"

text \<open>\<^verbatim>\<open>df.iloc[:, 0]\<close>: the first column, an \<^verbatim>\<open>IndexError\<close> when there is none.\<close>

definition iloc_col0 :: "'l frame \<Rightarrow> exn + series" where
  "iloc_col0 h =
     (case columns h of
        [] \<Rightarrow> Inl IndexError
      | l # _ \<Rightarrow> Inr (map (\<lambda>(d, cells). (d, cells l)) (rows h)))"

definition close_labels :: "string list" where
  "close_labels = [''Close'', ''Adj Close'', ''close'', ''adjclose'']"

text \<open>
  What \<^verbatim>\<open>_get_close_series\<close> hands back: \<^verbatim>\<open>None\<close>, a series, or (from the second
  loop run over two-level labels, where \<^verbatim>\<open>hist[label]\<close> may be a frame) a frame.
\<close>

datatype extracted = NoSeries | ASeries series | AFrame "string frame"

definition nonempty_series :: "series \<Rightarrow> extracted" where
  "nonempty_series s = (if s \<noteq> [] then ASeries s else NoSeries)"

text \<open>
  The loop of lines 85 to 94 over the labels, \<open>unused\<close> being the labels of the first
  level that no column carries. \<open>Inr None\<close>: the loop ended without a
  \<^verbatim>\<open>return\<close>. Line 86 tests the label against the level, line 87 selects it and
  raises a \<^verbatim>\<open>KeyError\<close> when no column carries it. A selection that is a series and
  keeps a close reaches line 94, \<^verbatim>\<open>return df if not s.empty else None\<close>, where
  \<^verbatim>\<open>s\<close> has no value yet (it is only assigned at line 91, which is followed by a
  \<^verbatim>\<open>return\<close>): an \<^verbatim>\<open>UnboundLocalError\<close>.
\<close>

fun multi_loop ::
    "string list \<Rightarrow> (string \<times> string) frame \<Rightarrow> string list \<Rightarrow> exn + extracted option" where
  "multi_loop unused h [] = Inr None"
| "multi_loop unused h (label # ls) =
     (if label \<in> set (map fst (columns h)) \<or> label \<in> set unused then
        (case getitem_nested h label of
           Inl e \<Rightarrow> Inl e
         | Inr (SelFrame sel) \<Rightarrow>
             let df = frame_dropna sel in
             if frame_empty df then multi_loop unused h ls
             else (case iloc_col0 df of
                     Inl e \<Rightarrow> Inl e
                   | Inr col \<Rightarrow> Inr (Some (nonempty_series (series_dropna col))))
         | Inr (SelSeries sel) \<Rightarrow>
             let df = series_dropna sel in
             if df = [] then multi_loop unused h ls
             else Inl UnboundLocalError)
      else multi_loop unused h ls)"

text \<open>The loop of lines 96 to 99 over plain labels.\<close>

fun single_loop :: "string frame \<Rightarrow> string list \<Rightarrow> exn + extracted" where
  "single_loop h [] = Inr NoSeries"
| "single_loop h (label # ls) =
     (if label \<in> set (columns h) then
        (case getitem_flat h label of
           Inl e \<Rightarrow> Inl e
         | Inr col \<Rightarrow> Inr (nonempty_series (series_dropna col)))
      else single_loop h ls)"

text \<open>
  The same loop reached with two-level labels: \<^verbatim>\<open>label in cols\<close> holds for the field
  of a column, and the selection is a frame or a series.
\<close>

fun single_loop_nested :: "(string \<times> string) frame \<Rightarrow> string list \<Rightarrow> exn + extracted" where
  "single_loop_nested h [] = Inr NoSeries"
| "single_loop_nested h (label # ls) =
     (if label \<in> set (map fst (columns h)) then
        (case getitem_nested h label of
           Inl e \<Rightarrow> Inl e
         | Inr (SelFrame sel) \<Rightarrow>
             let s = frame_dropna sel in
             Inr (if \<not> frame_empty s then AFrame s else NoSeries)
         | Inr (SelSeries sel) \<Rightarrow> Inr (nonempty_series (series_dropna sel)))
      else single_loop_nested h ls)"

text \<open>\<^verbatim>\<open>_get_close_series(hist)\<close>\<close>

definition get_close_series :: "hist option \<Rightarrow> exn + extracted" where
  "get_close_series ho =
     (case ho of
        None \<Rightarrow> Inr NoSeries
      | Some (Flat h) \<Rightarrow>
          if frame_empty h then Inr NoSeries else single_loop h close_labels
      | Some (Nested unused h) \<Rightarrow>
          if frame_empty h then Inr NoSeries
          else (case multi_loop unused h close_labels of
                  Inl e \<Rightarrow> Inl e
                | Inr (Some r) \<Rightarrow> Inr r
                | Inr None \<Rightarrow> single_loop_nested h close_labels))"

section \<open>Rendering of returns (lines 125, 189, 262 to 263, 274 to 275, 285 to 292, 340 to 343)\<close>

text \<open>
  \<^verbatim>\<open>f"{x:.1f}"\<close> on a number: an optional minus sign, the integer digits, a point and
  one digit, the value rounded to the nearest tenth with ties to the even neighbour.
\<close>

definition digit_char :: "nat \<Rightarrow> char" where
  "digit_char n = ''0123456789'' ! n"

fun digits :: "nat \<Rightarrow> string" where
  "digits n = (if n < 10 then [digit_char n] else digits (n div 10) @ [digit_char (n mod 10)])"

declare digits.simps [simp del]

definition round_half_even :: "real \<Rightarrow> int" where
  "round_half_even x =
     (let f = \<lfloor>x\<rfloor>; d = x - of_int f
      in if d < 1 / 2 then f else if 1 / 2 < d then f + 1 else if even f then f else f + 1)"

definition fmt_1f :: "real \<Rightarrow> string" where
  "fmt_1f x =
     (let n = nat (round_half_even (\<bar>x\<bar> * 10))
      in (if x < 0 then ''-'' else []) @ digits (n div 10) @ ''.'' @ digits (n mod 10))"

text \<open>\<^verbatim>\<open>f"{r*100:.1f}%"\<close>\<close>

definition fmt_pct :: "real \<Rightarrow> string" where
  "fmt_pct r = fmt_1f (r * 100) @ ''%''"

text \<open>Line 125: \<^verbatim>\<open>def to_str(r): return "" if r is None else f"{r*100:.1f}%"\<close>\<close>

definition to_str :: "real option \<Rightarrow> string" where
  "to_str r = (case r of None \<Rightarrow> [] | Some v \<Rightarrow> fmt_pct v)"

text \<open>Line 189: \<^verbatim>\<open>lambda r: "" if pd.isna(r) else f"{r*100:.1f}%"\<close>\<close>

definition actual_perf_str :: "pyfloat \<Rightarrow> string" where
  "actual_perf_str r = (case r of NaN \<Rightarrow> [] | Val v \<Rightarrow> fmt_pct v)"

text \<open>Lines 262 and 263: \<^verbatim>\<open>fmt_badge_val\<close>\<close>

definition fmt_badge_val :: "real option \<Rightarrow> string" where
  "fmt_badge_val r = (case r of None \<Rightarrow> ''-'' | Some v \<Rightarrow> fmt_pct v)"

text \<open>Lines 274, 275 and 306 to 309: \<^verbatim>\<open>r["Perf1M"] or "-"\<close>\<close>

definition or_dash :: "string \<Rightarrow> string" where
  "or_dash s = (if s = [] then ''-'' else s)"

text \<open>
  Lines 285 to 292: \<^verbatim>\<open>perf_span\<close>. Python's \<^verbatim>\<open>float\<close> on a string is the parameter
  \<open>float_of\<close>, \<open>None\<close> where it raises.
\<close>

definition perf_span :: "(string \<Rightarrow> real option) \<Rightarrow> string \<Rightarrow> string" where
  "perf_span float_of s =
     (if s = [] \<or> s = ''-'' then ''<span class=\"perf neu\">-</span>''
      else (case float_of (filter (\<lambda>c. c \<noteq> CHR ''%'') s) of
              None \<Rightarrow> ''<span class=\"perf neu\">'' @ s @ ''</span>''
            | Some v \<Rightarrow>
                let cls = (if v > 0 then ''pos'' else if v < 0 then ''neg'' else ''neu'')
                in ''<span class=\"perf '' @ cls @ ''\">'' @ s @ ''</span>''))"

text \<open>Lines 340 to 343: \<^verbatim>\<open>badge\<close>\<close>

definition badge :: "real option \<Rightarrow> string" where
  "badge v =
     (case v of
        None \<Rightarrow> ''<span class=\"badge neu\">-</span>''
      | Some x \<Rightarrow>
          let cls = (if x > 0 then ''pos'' else if x < 0 then ''neg'' else ''neu'')
          in ''<span class=\"badge '' @ cls @ ''\">'' @ fmt_pct x @ ''</span>'')"

section \<open>The three windows of one holding (lines 119 to 126)\<close>

text \<open>
  \<^verbatim>\<open>compute_individual_perf_from_hist(hist)\<close>. Each of the three calls reads the clock
  itself: \<open>now1\<close>, \<open>now6\<close> and \<open>now12\<close>. An exception of the extraction is not caught
  here; a frame in place of a series makes \<^verbatim>\<open>float(s.iloc[-1])\<close> raise.
\<close>

definition compute_individual_perf_from_hist ::
    "instant \<Rightarrow> instant \<Rightarrow> instant \<Rightarrow> hist option \<Rightarrow>
       exn + (string \<times> string \<times> string \<times> real option \<times> real option \<times> real option)" where
  "compute_individual_perf_from_hist now1 now6 now12 h =
     (case get_close_series h of
        Inl e \<Rightarrow> Inl e
      | Inr (AFrame f) \<Rightarrow> Inl TypeError
      | Inr x \<Rightarrow>
          let s = (case x of ASeries s \<Rightarrow> Some s | _ \<Rightarrow> None);
              r1 = window_return_from_series now1 s 1 20;
              r6 = window_return_from_series now6 s 6 120;
              r12 = window_return_from_series now12 s 12 250
          in Inr (to_str r1, to_str r6, to_str r12, r1, r6, r12))"

section \<open>Float arithmetic\<close>

text \<open>
  Arithmetic on floats: a missing operand gives a missing result. Every comparison
  with \<open>NaN\<close> is false, and \<open>NaN\<close> is true as a condition (only zero is false).
  Dividing Python floats by zero raises.
\<close>

fun py_mul :: "pyfloat \<Rightarrow> pyfloat \<Rightarrow> pyfloat" where
  "py_mul (Val a) (Val b) = Val (a * b)"
| "py_mul _ _ = NaN"

fun py_truediv :: "pyfloat \<Rightarrow> pyfloat \<Rightarrow> exn + pyfloat" where
  "py_truediv (Val a) (Val b) = (if b = 0 then Inl ZeroDivisionError else Inr (Val (a / b)))"
| "py_truediv _ _ = Inr NaN"


fun truthy :: "pyfloat \<Rightarrow> bool" where
  "truthy (Val a) = (a \<noteq> 0)"
| "truthy NaN = True"

section \<open>Rounding to double precision\<close>








section \<open>The current price (lines 28 to 60)\<close>

text \<open>
  What the provider answers is the input: a call returns or raises. The object
  \<^verbatim>\<open>yf.Ticker(ticker_yf)\<close> answers four requests: the attribute
  \<^verbatim>\<open>fast_info\<close> (absent or empty is \<open>None\<close>) with its \<^verbatim>\<open>last_price\<close>, the one-day
  history by the minute, the five-day daily history, and the dictionary
  \<^verbatim>\<open>info\<close> (its \<^verbatim>\<open>get\<close> is \<open>None\<close> on a missing key or a \<^verbatim>\<open>None\<close> entry; no
  dictionary is the empty one). Prices it gives are floats or \<^verbatim>\<open>None\<close>.
\<close>

datatype 'a outcome = Raises | Returns 'a

record fast_info_obj =
  last_price :: "pyfloat option outcome"

record ticker_obj =
  fast_info :: "fast_info_obj option outcome"
  history_1d_1m :: "string frame outcome"
  history_5d_1d :: "string frame outcome"
  info :: "(string \<Rightarrow> pyfloat option) outcome"

datatype request = FastInfo | History1d1m | History5d1d | Info

text \<open>Lines 31 to 36. \<open>None\<close>: the tier gave no price.\<close>

definition tier_fast_info :: "ticker_obj \<Rightarrow> pyfloat option" where
  "tier_fast_info tk =
     (case fast_info tk of
        Raises \<Rightarrow> None
      | Returns None \<Rightarrow> None
      | Returns (Some fi) \<Rightarrow>
          (case last_price fi of
             Raises \<Rightarrow> None
           | Returns None \<Rightarrow> None
           | Returns (Some p) \<Rightarrow> if truthy p then Some p else None))"

text \<open>
  Lines 38 to 43 and 45 to 50:
  \<^verbatim>\<open>if not h.empty and "Close" in h: return float(h["Close"].iloc[-1])\<close>
\<close>

definition tier_history :: "string frame outcome \<Rightarrow> pyfloat option" where
  "tier_history hr =
     (case hr of
        Raises \<Rightarrow> None
      | Returns h \<Rightarrow>
          if \<not> frame_empty h \<and> ''Close'' \<in> set (columns h) then
            (case getitem_flat h ''Close'' of
               Inl e \<Rightarrow> None
             | Inr col \<Rightarrow> (if col = [] then None else Some (snd (last col))))
          else None)"

text \<open>Lines 52 to 59.\<close>

fun first_info_field :: "(string \<Rightarrow> pyfloat option) \<Rightarrow> string list \<Rightarrow> pyfloat option" where
  "first_info_field d [] = None"
| "first_info_field d (k # ks) =
     (case d k of Some v \<Rightarrow> Some v | None \<Rightarrow> first_info_field d ks)"

definition tier_info :: "ticker_obj \<Rightarrow> pyfloat option" where
  "tier_info tk =
     (case info tk of
        Raises \<Rightarrow> None
      | Returns d \<Rightarrow>
          first_info_field d [''regularMarketPrice'', ''currentPrice'', ''previousClose''])"

text \<open>
  \<^verbatim>\<open>get_price_native\<close>, with the requests it sends to the provider in the order it
  sends them.
\<close>

definition get_price_native :: "ticker_obj \<Rightarrow> pyfloat option \<times> request list" where
  "get_price_native tk =
     (let log = [FastInfo] in
      case tier_fast_info tk of
        Some p \<Rightarrow> (Some p, log)
      | None \<Rightarrow>
          let log = log @ [History1d1m] in
          (case tier_history (history_1d_1m tk) of
             Some p \<Rightarrow> (Some p, log)
           | None \<Rightarrow>
               let log = log @ [History5d1d] in
               (case tier_history (history_5d_1d tk) of
                  Some p \<Rightarrow> (Some p, log)
                | None \<Rightarrow>
                    let log = log @ [Info] in
                    (case tier_info tk of
                       Some p \<Rightarrow> (Some p, log)
                     | None \<Rightarrow> (None, log)))))"

section \<open>The exchange rate (lines 62 to 70)\<close>

text \<open>
  \<^verbatim>\<open>float(fx["Close"].iloc[-1])\<close>: the last close under plain labels; under two-level
  labels the last close of a selection that is a series, and the last row of a
  selection that is a frame, which converts when it has one cell and raises
  otherwise.
\<close>

definition last_close :: "hist \<Rightarrow> exn + pyfloat" where
  "last_close fx =
     (case fx of
        Flat h \<Rightarrow>
          (case getitem_flat h ''Close'' of
             Inl e \<Rightarrow> Inl e
           | Inr col \<Rightarrow> (if col = [] then Inl IndexError else Inr (snd (last col))))
      | Nested unused h \<Rightarrow>
          (case getitem_nested h ''Close'' of
             Inl e \<Rightarrow> Inl e
           | Inr (SelSeries col) \<Rightarrow>
               (if col = [] then Inl IndexError else Inr (snd (last col)))
           | Inr (SelFrame sel) \<Rightarrow>
               if rows sel = [] then Inl IndexError
               else (case columns sel of
                       [c] \<Rightarrow> Inr (snd (last (rows sel)) c)
                     | _ \<Rightarrow> Inl TypeError)))"

definition hist_empty :: "hist \<Rightarrow> bool" where
  "hist_empty fx =
     (case fx of Flat h \<Rightarrow> frame_empty h | Nested unused h \<Rightarrow> frame_empty h)"

definition has_close :: "hist \<Rightarrow> bool" where
  "has_close fx =
     (case fx of
        Flat h \<Rightarrow> ''Close'' \<in> set (columns h)
      | Nested unused h \<Rightarrow> ''Close'' \<in> set (map fst (columns h)))"

text \<open>
  The body of the \<^verbatim>\<open>try\<close>: \<open>Inl\<close> an exception, \<open>Inr None\<close> the end of the
  block without a \<^verbatim>\<open>return\<close>, \<open>Inr (Some v)\<close> the value returned.
\<close>

definition aud_per_usd_try :: "hist outcome \<Rightarrow> exn + pyfloat option" where
  "aud_per_usd_try dl =
     (case dl of
        Raises \<Rightarrow> Inl ProviderError
      | Returns fx \<Rightarrow>
          if \<not> hist_empty fx \<and> has_close fx then
            (case last_close fx of
               Inl e \<Rightarrow> Inl e
             | Inr usd_per_aud \<Rightarrow>
                 if truthy usd_per_aud then
                   (case py_truediv (Val 1) usd_per_aud of
                      Inl e \<Rightarrow> Inl e
                    | Inr v \<Rightarrow> Inr (Some v))
                 else Inr (Some (Val 1.5)))
          else Inr None)"

definition get_aud_per_usd :: "hist outcome \<Rightarrow> pyfloat" where
  "get_aud_per_usd dl =
     (case aud_per_usd_try dl of
        Inl e \<Rightarrow> Val 1.5
      | Inr None \<Rightarrow> Val 1.5
      | Inr (Some v) \<Rightarrow> v)"

section \<open>Holdings in the reporting currency (lines 160 to 161, 171, 176 to 198)\<close>

text \<open>
  A row of the holdings table once the price columns are filled in (line 174): the
  ticker as typed and as the provider knows it, the market, the quantity (a number:
  blanks were replaced by zero), the price in the reporting currency (\<open>NaN\<close> when
  no price was found) and the average cost per share in the market's own currency
  (\<open>NaN\<close> when it is unknown).
\<close>

record holding =
  Ticker :: string
  TickerYF :: string
  Market :: string
  Quantity :: real
  PriceAUD :: pyfloat
  AvgCost :: pyfloat

text \<open>Line 161: \<^verbatim>\<open>px * aud_per_usd if mkt == "US" else px\<close>\<close>

definition price_to_aud :: "pyfloat \<Rightarrow> string \<Rightarrow> pyfloat \<Rightarrow> pyfloat" where
  "price_to_aud aud_per_usd mkt px = (if mkt = ''US'' then py_mul px aud_per_usd else px)"

text \<open>Lines 180 to 185: \<^verbatim>\<open>cost_to_aud(row)\<close>; \<^verbatim>\<open>pd.NA\<close> is the missing value \<open>NaN\<close>.\<close>

definition cost_to_aud :: "pyfloat \<Rightarrow> holding \<Rightarrow> pyfloat" where
  "cost_to_aud aud_per_usd row =
     (if AvgCost row = NaN then NaN
      else if Market row = ''US'' then py_mul (AvgCost row) aud_per_usd
      else AvgCost row)"

text \<open>
  The column \<^verbatim>\<open>AvgCostAUD\<close> (lines 177 to 193); \<open>has_avgcost\<close> tells whether the
  table has a column \<^verbatim>\<open>AvgCost\<close>.
\<close>

definition AvgCostAUD :: "bool \<Rightarrow> pyfloat \<Rightarrow> holding \<Rightarrow> pyfloat" where
  "AvgCostAUD has_avgcost aud_per_usd row =
     (if has_avgcost then cost_to_aud aud_per_usd row else NaN)"

text \<open>Line 171: \<^verbatim>\<open>df["MarketValueAUD"] = df["Quantity"] * df["PriceAUD"]\<close>\<close>

definition MarketValueAUD :: "holding \<Rightarrow> pyfloat" where
  "MarketValueAUD row = py_mul (Val (Quantity row)) (PriceAUD row)"

text \<open>
  Lines 195 and 196: the rows with a price, by falling market value. The order
  among equal values is the model's choice (the stable one). \<open>value_or_zero\<close> reads
  the number a float holds and takes a missing one as zero; no market value of a row
  with a price is missing.
\<close>

definition value_or_zero :: "pyfloat \<Rightarrow> real" where
  "value_or_zero x = (case x of Val v \<Rightarrow> v | NaN \<Rightarrow> 0)"

definition shown :: "holding list \<Rightarrow> holding list" where
  "shown df =
     sort_key (\<lambda>r. - value_or_zero (MarketValueAUD r)) (filter (\<lambda>r. PriceAUD r \<noteq> NaN) df)"

text \<open>\<^verbatim>\<open>Series.sum()\<close> of pandas leaves missing values out.\<close>

definition pd_sum :: "pyfloat list \<Rightarrow> real" where
  "pd_sum xs = sum_list (map value_or_zero (filter (\<lambda>x. x \<noteq> NaN) xs))"


section \<open>The return since inception (lines 187 to 192 and 249 to 260)\<close>

text \<open>
  Line 188: \<^verbatim>\<open>df["ActualPerfNum"] = (df["PriceAUD"] - df["AvgCostAUD"]) / df["AvgCostAUD"]\<close>.
  The column \<^verbatim>\<open>AvgCostAUD\<close> is what \<^verbatim>\<open>df.apply(cost_to_aud, axis=1)\<close> returned. When
  every cost is known it is a column of floats and the division is the one of the
  floats: a zero cost gives an infinity or a missing value and nothing is raised.
  When some cost is unknown the column holds \<^verbatim>\<open>pd.NA\<close> next to Python floats and the
  division is Python's, element by element: \<^verbatim>\<open>pd.NA\<close> stays missing, and at a zero
  cost Python raises \<^verbatim>\<open>ZeroDivisionError\<close>, whatever the numerator is. A cell of
  the result is a number, an infinity or missing.
\<close>

datatype cell = Number real | Infinity | MinusInfinity | Missing

definition perf_cell :: "pyfloat \<Rightarrow> pyfloat \<Rightarrow> cell" where
  "perf_cell price cost =
     (case (price, cost) of
        (Val p, Val c) \<Rightarrow>
          if c \<noteq> 0 then Number ((p - c) / c)
          else if 0 < p then Infinity
          else if p < 0 then MinusInfinity
          else Missing
      | _ \<Rightarrow> Missing)"

text \<open>
  The column \<^verbatim>\<open>ActualPerfNum\<close> (lines 188 and 192); \<open>object_dtype\<close> tells whether
  \<^verbatim>\<open>cost_to_aud\<close> returned \<^verbatim>\<open>pd.NA\<close> for some row.
\<close>

definition ActualPerfNum :: "bool \<Rightarrow> pyfloat \<Rightarrow> holding list \<Rightarrow> exn + cell list" where
  "ActualPerfNum has_avgcost aud_per_usd df =
     (if has_avgcost then
        let object_dtype = list_ex (\<lambda>row. AvgCost row = NaN) df
        in if object_dtype \<and> list_ex (\<lambda>row. cost_to_aud aud_per_usd row = Val 0) df
           then Inl ZeroDivisionError
           else Inr (map (\<lambda>row. perf_cell (PriceAUD row) (cost_to_aud aud_per_usd row)) df)
      else Inr (map (\<lambda>row. Missing) df))"

text \<open>Lines 249 to 260, from the rows shown.\<close>

definition port_actual :: "bool \<Rightarrow> pyfloat \<Rightarrow> holding list \<Rightarrow> real option" where
  "port_actual has_avgcost aud_per_usd shown_rows =
     (if shown_rows \<noteq> [] then
        let have_cost = filter (\<lambda>r. AvgCostAUD has_avgcost aud_per_usd r \<noteq> NaN) shown_rows in
        if have_cost = [] then None
        else
          let total_cost_aud =
                pd_sum (map (\<lambda>r. py_mul (AvgCostAUD has_avgcost aud_per_usd r) (Val (Quantity r)))
                          have_cost);
              total_mv_with_cost = pd_sum (map MarketValueAUD have_cost)
          in if total_cost_aud \<noteq> 0 \<and> total_cost_aud > 0
             then Some ((total_mv_with_cost - total_cost_aud) / total_cost_aud)
             else None
      else None)"

text \<open>
  The value of \<^verbatim>\<open>port_actual\<close> in \<^verbatim>\<open>main\<close>, from the table with its price column:
  line 188 first, which may raise and end the run, then the rows shown and lines
  249 to 260. The hypothetical returns of lines 245 to 247, computed in between,
  are modelled on their own in the next section.
\<close>

definition actual_return :: "bool \<Rightarrow> pyfloat \<Rightarrow> holding list \<Rightarrow> exn + real option" where
  "actual_return has_avgcost aud_per_usd df =
     (case ActualPerfNum has_avgcost aud_per_usd df of
        Inl e \<Rightarrow> Inl e
      | Inr perf \<Rightarrow> Inr (port_actual has_avgcost aud_per_usd (shown df)))"

section \<open>The hypothetical return of the portfolio (lines 203 to 243)\<close>




section \<open>The specification's wording\<close>

text \<open>
  The target date as the specification words it, \<open>now\<close> less \<open>months\<close> times 30.5
  days (half a day is a whole number of nanoseconds).
\<close>

definition spec_target_dt :: "instant \<Rightarrow> int \<Rightarrow> instant" where
  "spec_target_dt now months = now - (months * 61 * day) div 2"

text \<open>
  The conversion as the specification words it: a market is domestic or foreign, an
  amount of the domestic market is left as it is and an amount of the foreign market
  is multiplied by the rate. The code knows the foreign market by the tag \<^verbatim>\<open>US\<close>.
\<close>

datatype market = DOMESTIC | FOREIGN

definition market_of :: "string \<Rightarrow> market" where
  "market_of mkt = (if mkt = ''US'' then FOREIGN else DOMESTIC)"

definition convert :: "pyfloat \<Rightarrow> pyfloat \<Rightarrow> market \<Rightarrow> pyfloat" where
  "convert rate x m = (case m of DOMESTIC \<Rightarrow> x | FOREIGN \<Rightarrow> py_mul x rate)"


text \<open>
  Words for the extraction: a result is clean when it is no series, or a series
  that is not empty and has no missing close; the column under a label; and the
  two-level labels under which the extraction returns: no close field is a label of
  the first level without a column, and no close field has for its only column one
  whose symbol is the empty string.
\<close>

definition clean_result :: "extracted \<Rightarrow> bool" where
  "clean_result x =
     (case x of
        NoSeries \<Rightarrow> True
      | ASeries s \<Rightarrow> s \<noteq> [] \<and> list_all (\<lambda>p. snd p \<noteq> NaN) s
      | AFrame f \<Rightarrow> False)"

definition column_of :: "'l frame \<Rightarrow> 'l \<Rightarrow> series" where
  "column_of h l = map (\<lambda>(d, cells). (d, cells l)) (rows h)"

definition proper_labels :: "string list \<Rightarrow> (string \<times> string) frame \<Rightarrow> bool" where
  "proper_labels unused h =
     (list_all (\<lambda>l. l \<notin> set unused) close_labels
      \<and> list_all (\<lambda>l. map snd (filter (\<lambda>c. fst c = l) (columns h)) \<noteq> [[]]) close_labels)"

text \<open>
  Words for the return since inception: the holdings that have a price and a known
  cost basis, the cost basis of a holding (cost per share in the reporting currency
  times quantity) and its market value, as numbers.
\<close>

definition with_cost :: "bool \<Rightarrow> pyfloat \<Rightarrow> holding list \<Rightarrow> holding list" where
  "with_cost has_avgcost rate df =
     filter (\<lambda>r. PriceAUD r \<noteq> NaN \<and> AvgCostAUD has_avgcost rate r \<noteq> NaN) df"

definition cost_basis_value :: "bool \<Rightarrow> pyfloat \<Rightarrow> holding \<Rightarrow> real" where
  "cost_basis_value has_avgcost rate r =
     value_or_zero (py_mul (AvgCostAUD has_avgcost rate r) (Val (Quantity r)))"

definition market_value :: "holding \<Rightarrow> real" where
  "market_value r = value_or_zero (MarketValueAUD r)"




section \<open>Holdings for the examples\<close>


definition ex_A :: holding where
  "ex_A = \<lparr>Ticker = ''AAA'', TickerYF = ''AAA.AX'', Market = ''ASX'', Quantity = 10,
           PriceAUD = Val 110, AvgCost = Val 100\<rparr>"

definition ex_B :: holding where
  "ex_B = \<lparr>Ticker = ''BBB'', TickerYF = ''BBB'', Market = ''US'', Quantity = 5,
           PriceAUD = Val 380, AvgCost = Val 150\<rparr>"

definition ex_C :: holding where
  "ex_C = \<lparr>Ticker = ''CCC'', TickerYF = ''CCC.AX'', Market = ''ASX'', Quantity = 3,
           PriceAUD = Val 7, AvgCost = NaN\<rparr>"


definition ex_Z :: holding where
  "ex_Z = \<lparr>Ticker = ''ZZZ'', TickerYF = ''ZZZ.AX'', Market = ''ASX'', Quantity = 4,
           PriceAUD = Val 5, AvgCost = Val 0\<rparr>"


section \<open>Properties of the window return\<close>

lemma searchsorted_le: "searchsorted ds t \<le> length ds"
  by (simp add: searchsorted_def length_takeWhile_le)

lemma searchsorted_before: "j < searchsorted ds t \<Longrightarrow> ds ! j < t"
  unfolding searchsorted_def
  using nth_mem [of j "takeWhile (\<lambda>d. d < t) ds"] set_takeWhileD [of "ds ! j" "\<lambda>d. d < t" ds]
  by (simp add: takeWhile_nth)

lemma searchsorted_at: "searchsorted ds t < length ds \<Longrightarrow> t \<le> ds ! searchsorted ds t"
  unfolding searchsorted_def
  using nth_length_takeWhile [of "\<lambda>d. d < t" ds] by simp

lemma searchsorted_all_before:
  "(\<forall>d\<in>set ds. d < t) \<Longrightarrow> searchsorted ds t = length ds"
  by (simp add: searchsorted_def takeWhile_eq_all_conv [THEN iffD2])

lemma ref_index_less: "ds \<noteq> [] \<Longrightarrow> ref_index ds t < length ds"
  using searchsorted_le [of ds t] by (cases ds) (auto simp: ref_index_def Let_def)

lemma ref_index_before: "j < ref_index ds t \<Longrightarrow> ds ! j < t"
  using searchsorted_before [of j ds t]
  by (auto simp: ref_index_def Let_def split: if_splits)

lemma ref_index_found:
  assumes ex: "\<exists>d\<in>set ds. t \<le> d"
  shows "t \<le> ds ! ref_index ds t"
proof -
  have "searchsorted ds t < length ds"
  proof (rule ccontr)
    assume "\<not> searchsorted ds t < length ds"
    then have "length (takeWhile (\<lambda>d. d < t) ds) = length ds"
      using searchsorted_le [of ds t] by (simp add: searchsorted_def)
    then have "takeWhile (\<lambda>d. d < t) ds = ds"
      by (metis takeWhile_eq_take take_all order_refl)
    then have "\<forall>d\<in>set ds. d < t"
      by (metis set_takeWhileD)
    with ex show False by force
  qed
  then show ?thesis
    using searchsorted_at [of ds t] by (simp add: ref_index_def Let_def)
qed

lemma ref_index_clamped:
  "\<forall>d\<in>set ds. d < t \<Longrightarrow> ref_index ds t = length ds - 1"
  by (simp add: ref_index_def searchsorted_all_before)

lemma sort_index_Nil: "sort_index s = [] \<longleftrightarrow> s = []"
  by (metis sort_index_def length_sort length_0_conv)

lemma sort_index_set: "set (sort_index s) = set s"
  by (simp add: sort_index_def)

lemma sort_index_sorted: "sorted (map fst (sort_index s))"
  by (simp add: sort_index_def)

lemma months_days_windows:
  "months_days 1 = 30 \<and> months_days 6 = 183 \<and> months_days 12 = 366"
  by (simp add: months_days_def)

text \<open>
  Claim C1, as amended. For a series that is not empty, whose last close (by date) is
  a number, whose span is at least the minimum and whose reference close is a number
  other than zero, the window return is (last - ref) / ref. The reference close is
  the one at the first position of the sorted series whose date is not before
  \<open>now\<close> less \<open>int(months * 30.5)\<close> whole days (30, 183 and 366 days for 1, 6 and 12
  months), and at the last position when every date is before it; the position is
  always inside the series.
\<close>

theorem window_return_reference:
  fixes s0 :: series and now months :: int
  defines "s \<equiv> sort_index s0"
  defines "t \<equiv> now - months_days months * day"
  defines "i \<equiv> ref_index (map fst s) t"
  assumes ne: "s0 \<noteq> []"
    and lst: "snd (last s) = Val l"
    and span: "min_days \<le> days_span s"
    and ref: "snd (s ! i) = Val r"
    and nz: "r \<noteq> 0"
  shows "window_return_from_series now (Some s0) months min_days = Some ((l - r) / r)
       \<and> i < length s
       \<and> (\<forall>j<i. fst (s ! j) < t)
       \<and> (if \<exists>j<length s. t \<le> fst (s ! j) then t \<le> fst (s ! i) else i = length s - 1)"
proof -
  have sne: "s \<noteq> []" using ne by (simp add: s_def sort_index_Nil)
  have il: "i < length s"
    using sne ref_index_less [of "map fst s" t] by (simp add: i_def)
  have before: "\<forall>j<i. fst (s ! j) < t"
  proof (intro allI impI)
    fix j assume "j < i"
    then have "map fst s ! j < t" unfolding i_def by (rule ref_index_before)
    with \<open>j < i\<close> il show "fst (s ! j) < t" by simp
  qed
  have found: "t \<le> fst (s ! i)" if "\<exists>j<length s. t \<le> fst (s ! j)"
  proof -
    from that have "\<exists>d\<in>set (map fst s). t \<le> d" by (metis length_map nth_map nth_mem)
    then have "t \<le> map fst s ! i" unfolding i_def by (rule ref_index_found)
    with il show ?thesis by simp
  qed
  have clamped: "i = length s - 1" if "\<not> (\<exists>j<length s. t \<le> fst (s ! j))"
  proof -
    from that have "\<forall>j<length s. fst (s ! j) < t" by (simp add: not_le)
    then have "\<forall>d\<in>set (map fst s). d < t"
      by (metis (no_types, lifting) in_set_conv_nth length_map nth_map)
    then show ?thesis unfolding i_def by (simp add: ref_index_clamped)
  qed
  have val: "window_return_from_series now (Some s0) months min_days = Some ((l - r) / r)"
    using ne lst span ref nz
    by (simp add: window_return_from_series_def Let_def target_dt_def s_def i_def t_def)
  show ?thesis using val il before found clamped by simp
qed

text \<open>
  The one-month window at midnight of day 400 over closes dated day 0, day 375 and
  day 399: the reference is the close of day 375, the first one not before day 370.
\<close>

theorem window_return_reference_witness:
  "window_return_from_series (400 * day)
     (Some [(0, Val 100), (375 * day, Val 110), (399 * day, Val 121)]) 1 20
   = Some ((121 - 110) / 110)"
proof -
  let ?s0 = "[(0, Val 100), (375 * day, Val 110), (399 * day, Val 121)] :: series"
  have srt: "sort_index ?s0 = ?s0"
    by (simp add: sort_index_def day_def)
  have idx: "ref_index (map fst ?s0) (400 * day - months_days 1 * day) = 1"
    by (simp add: ref_index_def searchsorted_def months_days_def day_def)
  have a: "?s0 \<noteq> []" by simp
  have b: "snd (last (sort_index ?s0)) = Val 121"
    unfolding srt by simp
  have c: "20 \<le> days_span (sort_index ?s0)"
    unfolding srt by (simp add: days_span_def day_def)
  have d: "snd (sort_index ?s0 ! ref_index (map fst (sort_index ?s0))
              (400 * day - months_days 1 * day)) = Val 110"
    unfolding srt idx by simp
  have e: "(110::real) \<noteq> 0" by simp
  show ?thesis
    by (rule window_return_reference [OF a b c d e, THEN conjunct1])
qed

text \<open>
  Claim C1 as the specification states it fails. At six in the morning of day 400
  the one-month target of the specification is 30.5 days back, at 18:00 of day 369,
  so the first close not before it is the one of day 370 (position 1, close 110) and
  the return would be (121 - 110) / 110. The code goes back 30 whole days, to six in
  the morning of day 370, takes the close of day 399 as the reference and returns 0.
\<close>

theorem window_return_spec_target_counterexample:
  "window_return_from_series (400 * day + day div 4)
     (Some [(0, Val 100), (370 * day, Val 110), (399 * day, Val 121)]) 1 20 = Some 0
   \<and> sort_index [(0, Val 100), (370 * day, Val 110), (399 * day, Val 121)]
       = [(0, Val 100), (370 * day, Val 110), (399 * day, Val 121)]
   \<and> ref_index [0, 370 * day, 399 * day] (spec_target_dt (400 * day + day div 4) 1) = 1
   \<and> Some (0::real) \<noteq> Some ((121 - 110) / 110)"
  by (simp add: window_return_from_series_def sort_index_def ref_index_def searchsorted_def
      target_dt_def spec_target_dt_def months_days_def days_span_def day_def)

text \<open>
  Claim C9. A series that is not empty, whose last close is a number other than zero,
  whose span meets the minimum and whose dates are all before the target date has
  its reference at the last position, and the window return is exactly 0.
\<close>

theorem stale_series_returns_zero:
  assumes ne: "s0 \<noteq> []"
    and lst: "snd (last (sort_index s0)) = Val l"
    and nz: "l \<noteq> 0"
    and span: "min_days \<le> days_span (sort_index s0)"
    and stale: "\<forall>p\<in>set s0. fst p < target_dt now months"
  shows "window_return_from_series now (Some s0) months min_days = Some 0"
proof -
  let ?s = "sort_index s0"
  have sne: "?s \<noteq> []" using ne by (simp add: sort_index_Nil)
  have "\<forall>d\<in>set (map fst ?s). d < target_dt now months"
    using stale by (simp add: sort_index_set)
  then have idx: "ref_index (map fst ?s) (target_dt now months) = length ?s - 1"
    by (simp add: ref_index_clamped)
  have "?s ! (length ?s - 1) = last ?s"
    using sne by (simp add: last_conv_nth)
  with idx have ref: "snd (?s ! ref_index (map fst ?s) (target_dt now months)) = Val l"
    using lst by simp
  show ?thesis
    using ne lst nz span ref
    by (simp add: window_return_from_series_def Let_def)
qed

text \<open>Two closes a month apart, looked at a year later: the one-month return is 0.\<close>

theorem stale_series_returns_zero_witness:
  "window_return_from_series (400 * day) (Some [(0, Val 100), (30 * day, Val 110)]) 1 20 = Some 0"
proof -
  let ?s0 = "[(0, Val 100), (30 * day, Val 110)] :: series"
  have srt: "sort_index ?s0 = ?s0" by (simp add: sort_index_def day_def)
  show ?thesis
    by (rule stale_series_returns_zero [where l = 110 and ?s0.0 = ?s0, unfolded srt])
       (simp_all add: days_span_def target_dt_def months_days_def day_def)
qed

section \<open>Properties of the three windows\<close>

lemma window_return_short:
  "days_span (sort_index s0) < min_days \<Longrightarrow>
     window_return_from_series now (Some s0) months min_days = None"
  by (simp add: window_return_from_series_def Let_def split: pyfloat.split)

lemma window_return_bad_ref:
  "snd (sort_index s0 ! ref_index (map fst (sort_index s0)) (target_dt now months)) = Val 0
   \<or> snd (sort_index s0 ! ref_index (map fst (sort_index s0)) (target_dt now months)) = NaN
   \<Longrightarrow> window_return_from_series now (Some s0) months min_days = None"
  by (auto simp: window_return_from_series_def Let_def split: pyfloat.split)

lemma perf_of_series:
  "get_close_series h = Inr (ASeries s0) \<Longrightarrow>
     compute_individual_perf_from_hist n1 n6 n12 h =
       Inr (to_str (window_return_from_series n1 (Some s0) 1 20),
            to_str (window_return_from_series n6 (Some s0) 6 120),
            to_str (window_return_from_series n12 (Some s0) 12 250),
            window_return_from_series n1 (Some s0) 1 20,
            window_return_from_series n6 (Some s0) 6 120,
            window_return_from_series n12 (Some s0) 12 250)"
  by (simp add: compute_individual_perf_from_hist_def Let_def)

text \<open>
  Claim C4. The window return is absent whenever the span of the sorted series is
  below the minimum asked for, or the reference close is zero or missing. For a
  holding whose history yields a series, the three returns are the three calls with
  20 days for one month, 120 for six and 250 for twelve, each absent under its own
  condition and none depending on another.
\<close>

theorem window_absent_when_short_or_bad_reference:
  fixes s0 :: series
  defines "s \<equiv> sort_index s0"
  defines "ref \<equiv> (\<lambda>now months. snd (s ! ref_index (map fst s) (target_dt now months)))"
  shows "(days_span s < min_days \<or> ref now months = Val 0 \<or> ref now months = NaN \<longrightarrow>
            window_return_from_series now (Some s0) months min_days = None)
       \<and> (get_close_series h = Inr (ASeries s0) \<longrightarrow>
            (\<exists>r1 r6 r12.
               compute_individual_perf_from_hist n1 n6 n12 h
                 = Inr (to_str r1, to_str r6, to_str r12, r1, r6, r12)
               \<and> r1 = window_return_from_series n1 (Some s0) 1 20
               \<and> r6 = window_return_from_series n6 (Some s0) 6 120
               \<and> r12 = window_return_from_series n12 (Some s0) 12 250
               \<and> (days_span s < 20 \<or> ref n1 1 = Val 0 \<or> ref n1 1 = NaN \<longrightarrow> r1 = None)
               \<and> (days_span s < 120 \<or> ref n6 6 = Val 0 \<or> ref n6 6 = NaN \<longrightarrow> r6 = None)
               \<and> (days_span s < 250 \<or> ref n12 12 = Val 0 \<or> ref n12 12 = NaN \<longrightarrow> r12 = None)))"
proof -
  have gen: "days_span s < m \<or> ref n k = Val 0 \<or> ref n k = NaN \<longrightarrow>
            window_return_from_series n (Some s0) k m = None" for n k m
    using window_return_short [of s0 m n k] window_return_bad_ref [of s0 n k m]
    unfolding s_def ref_def by blast
  have perf: "get_close_series h = Inr (ASeries s0) \<longrightarrow>
            (\<exists>r1 r6 r12.
               compute_individual_perf_from_hist n1 n6 n12 h
                 = Inr (to_str r1, to_str r6, to_str r12, r1, r6, r12)
               \<and> r1 = window_return_from_series n1 (Some s0) 1 20
               \<and> r6 = window_return_from_series n6 (Some s0) 6 120
               \<and> r12 = window_return_from_series n12 (Some s0) 12 250
               \<and> (days_span s < 20 \<or> ref n1 1 = Val 0 \<or> ref n1 1 = NaN \<longrightarrow> r1 = None)
               \<and> (days_span s < 120 \<or> ref n6 6 = Val 0 \<or> ref n6 6 = NaN \<longrightarrow> r6 = None)
               \<and> (days_span s < 250 \<or> ref n12 12 = Val 0 \<or> ref n12 12 = NaN \<longrightarrow> r12 = None))"
    using gen [of 20 n1 1] gen [of 120 n6 6] gen [of 250 n12 12]
    by (simp add: perf_of_series)
  from gen [of min_days now months] perf show ?thesis by (rule conjI)
qed

text \<open>
  Sixty days of history: the one-month return is there (4.8 per cent), the six-month
  and twelve-month returns are absent. With a reference close of zero the one-month
  return is absent as well.
\<close>

theorem window_absent_when_short_or_bad_reference_witness:
  "compute_individual_perf_from_hist (61 * day) (61 * day) (61 * day)
     (Some (Flat \<lparr>columns = [''Close''],
        rows = [(0, \<lambda>l. Val 100), (50 * day, \<lambda>l. Val 105), (60 * day, \<lambda>l. Val 110)]\<rparr>))
   = Inr (''4.8%'', [], [], Some ((110 - 105) / 105), None, None)
   \<and> window_return_from_series (61 * day)
       (Some [(0, Val 100), (50 * day, Val 0), (60 * day, Val 110)]) 1 20 = None"
proof -
  let ?s0 = "[(0, Val 100), (50 * day, Val 105), (60 * day, Val 110)] :: series"
  let ?h = "Some (Flat \<lparr>columns = [''Close''],
        rows = [(0, \<lambda>l. Val 100), (50 * day, \<lambda>l. Val 105), (60 * day, \<lambda>l. Val 110)]\<rparr>)"
  have ex: "get_close_series ?h = Inr (ASeries ?s0)"
    by (simp add: get_close_series_def close_labels_def frame_empty_def getitem_flat_def
        nonempty_series_def series_dropna_def)
  have srt: "sort_index ?s0 = ?s0"
    by (simp add: sort_index_def day_def)
  have span: "days_span (sort_index ?s0) = 60"
    unfolding srt by (simp add: days_span_def day_def)
  have r1: "window_return_from_series (61 * day) (Some ?s0) 1 20 = Some ((110 - 105) / 105)"
    by (simp add: window_return_from_series_def sort_index_def ref_index_def searchsorted_def
        target_dt_def months_days_def days_span_def day_def)
  have str: "to_str (Some ((110 - 105) / 105)) = ''4.8%''"
    by (simp add: to_str_def fmt_pct_def fmt_1f_def round_half_even_def Let_def
        digits.simps digit_char_def)
  from window_absent_when_short_or_bad_reference
         [where ?s0.0 = ?s0 and h = ?h and ?n1.0 = "61 * day" and ?n6.0 = "61 * day"
            and ?n12.0 = "61 * day" and min_days = 20 and now = 0 and months = 1]
  obtain q1 q6 q12 where
      res: "compute_individual_perf_from_hist (61 * day) (61 * day) (61 * day) ?h
              = Inr (to_str q1, to_str q6, to_str q12, q1, q6, q12)"
    and q1: "q1 = window_return_from_series (61 * day) (Some ?s0) 1 20"
    and q6: "q6 = None" and q12: "q12 = None"
    using ex span by auto
  have perf: "compute_individual_perf_from_hist (61 * day) (61 * day) (61 * day) ?h
      = Inr (''4.8%'', [], [], Some ((110 - 105) / 105), None, None)"
    unfolding res q6 q12 q1 r1 str by (simp add: to_str_def)
  let ?z = "[(0, Val 100), (50 * day, Val 0), (60 * day, Val 110)] :: series"
  have zsrt: "sort_index ?z = ?z"
    by (simp add: sort_index_def day_def)
  have zref: "snd (?z ! ref_index (map fst ?z) (target_dt (61 * day) 1)) = Val 0"
    by (simp add: ref_index_def searchsorted_def target_dt_def months_days_def day_def)
  have zero: "window_return_from_series (61 * day) (Some ?z) 1 20 = None"
    using window_absent_when_short_or_bad_reference
            [where ?s0.0 = ?z and min_days = 20 and now = "61 * day" and months = 1]
    unfolding zsrt zref by simp
  from perf zero show ?thesis by (rule conjI)
qed

section \<open>Properties of the price resolver\<close>

text \<open>
  Claim C5. The resolver asks the provider in one order: the cached last price, the
  one-day history by the minute, the five-day daily history, the static fields. A
  tier that gives a price ends the search with that price and nothing further is
  asked; a tier is asked at most once, and once when every tier before it gave
  nothing. The static fields are read as regular-market price, then current price,
  then previous close. The result is \<^verbatim>\<open>None\<close> exactly when all four tiers give
  nothing.
\<close>

theorem get_price_native_tiers:
  "(tier_fast_info tk = Some p \<longrightarrow> get_price_native tk = (Some p, [FastInfo]))
   \<and> (tier_fast_info tk = None \<and> tier_history (history_1d_1m tk) = Some p \<longrightarrow>
        get_price_native tk = (Some p, [FastInfo, History1d1m]))
   \<and> (tier_fast_info tk = None \<and> tier_history (history_1d_1m tk) = None
        \<and> tier_history (history_5d_1d tk) = Some p \<longrightarrow>
        get_price_native tk = (Some p, [FastInfo, History1d1m, History5d1d]))
   \<and> (tier_fast_info tk = None \<and> tier_history (history_1d_1m tk) = None
        \<and> tier_history (history_5d_1d tk) = None \<longrightarrow>
        get_price_native tk = (tier_info tk, [FastInfo, History1d1m, History5d1d, Info]))
   \<and> (info tk = Returns d \<longrightarrow>
        tier_info tk =
          (case d ''regularMarketPrice'' of
             Some v \<Rightarrow> Some v
           | None \<Rightarrow> (case d ''currentPrice'' of Some v \<Rightarrow> Some v | None \<Rightarrow> d ''previousClose'')))
   \<and> (info tk = Raises \<longrightarrow> tier_info tk = None)
   \<and> (fst (get_price_native tk) = None \<longleftrightarrow>
        tier_fast_info tk = None \<and> tier_history (history_1d_1m tk) = None
        \<and> tier_history (history_5d_1d tk) = None \<and> tier_info tk = None)
   \<and> distinct (snd (get_price_native tk))
   \<and> (\<exists>k. snd (get_price_native tk) = take k [FastInfo, History1d1m, History5d1d, Info])"
proof -
  have t1: "tier_fast_info tk = Some p \<longrightarrow> get_price_native tk = (Some p, [FastInfo])"
    by (simp add: get_price_native_def)
  have t2: "tier_fast_info tk = None \<and> tier_history (history_1d_1m tk) = Some p \<longrightarrow>
        get_price_native tk = (Some p, [FastInfo, History1d1m])"
    by (simp add: get_price_native_def)
  have t3: "tier_fast_info tk = None \<and> tier_history (history_1d_1m tk) = None
        \<and> tier_history (history_5d_1d tk) = Some p \<longrightarrow>
        get_price_native tk = (Some p, [FastInfo, History1d1m, History5d1d])"
    by (simp add: get_price_native_def)
  have t4: "tier_fast_info tk = None \<and> tier_history (history_1d_1m tk) = None
        \<and> tier_history (history_5d_1d tk) = None \<longrightarrow>
        get_price_native tk = (tier_info tk, [FastInfo, History1d1m, History5d1d, Info])"
    by (simp add: get_price_native_def Let_def split: option.split)
  have i1: "info tk = Returns d \<longrightarrow>
        tier_info tk =
          (case d ''regularMarketPrice'' of
             Some v \<Rightarrow> Some v
           | None \<Rightarrow> (case d ''currentPrice'' of Some v \<Rightarrow> Some v | None \<Rightarrow> d ''previousClose''))"
    by (simp add: tier_info_def split: option.split)
  have i2: "info tk = Raises \<longrightarrow> tier_info tk = None"
    by (simp add: tier_info_def)
  have none: "fst (get_price_native tk) = None \<longleftrightarrow>
        tier_fast_info tk = None \<and> tier_history (history_1d_1m tk) = None
        \<and> tier_history (history_5d_1d tk) = None \<and> tier_info tk = None"
    by (simp add: get_price_native_def Let_def split: option.split)
  have dist: "distinct (snd (get_price_native tk))"
    by (simp add: get_price_native_def Let_def split: option.split)
  have pre: "\<exists>k. snd (get_price_native tk) = take k [FastInfo, History1d1m, History5d1d, Info]"
  proof -
    have "snd (get_price_native tk) = take 1 [FastInfo, History1d1m, History5d1d, Info]
        \<or> snd (get_price_native tk) = take 2 [FastInfo, History1d1m, History5d1d, Info]
        \<or> snd (get_price_native tk) = take 3 [FastInfo, History1d1m, History5d1d, Info]
        \<or> snd (get_price_native tk) = take 4 [FastInfo, History1d1m, History5d1d, Info]"
      by (simp add: get_price_native_def Let_def split: option.split)
    then show ?thesis by blast
  qed
  from t1 t2 t3 t4 i1 i2 none dist pre show ?thesis by blast
qed

text \<open>
  A provider whose cached price raises and whose intraday history is empty: the
  daily history answers. A provider with a cached price of zero and no history: the
  current-price field answers before the previous close. A provider with a cached
  price, one with an intraday close only, and one that always raises.
\<close>

theorem get_price_native_tiers_witness:
  "get_price_native
     \<lparr>fast_info = Raises,
      history_1d_1m = Returns \<lparr>columns = [''Close''], rows = []\<rparr>,
      history_5d_1d = Returns \<lparr>columns = [''Open'', ''Close''],
         rows = [(0, \<lambda>l. Val 41), (day, \<lambda>l. if l = ''Close'' then Val 42.5 else Val 42)]\<rparr>,
      info = Returns (\<lambda>k. if k = ''previousClose'' then Some (Val 40) else None)\<rparr>
   = (Some (Val 42.5), [FastInfo, History1d1m, History5d1d])
   \<and> get_price_native
     \<lparr>fast_info = Returns (Some \<lparr>last_price = Returns (Some (Val 0))\<rparr>),
      history_1d_1m = Raises,
      history_5d_1d = Raises,
      info = Returns (\<lambda>k. if k = ''previousClose'' then Some (Val 40)
                          else if k = ''currentPrice'' then Some (Val 41) else None)\<rparr>
   = (Some (Val 41), [FastInfo, History1d1m, History5d1d, Info])
   \<and> get_price_native
     \<lparr>fast_info = Returns (Some \<lparr>last_price = Returns (Some (Val 43))\<rparr>),
      history_1d_1m = Raises, history_5d_1d = Raises, info = Raises\<rparr>
   = (Some (Val 43), [FastInfo])
   \<and> get_price_native
     \<lparr>fast_info = Returns None,
      history_1d_1m = Returns \<lparr>columns = [''Close''], rows = [(0, \<lambda>l. Val 44)]\<rparr>,
      history_5d_1d = Raises, info = Raises\<rparr>
   = (Some (Val 44), [FastInfo, History1d1m])
   \<and> get_price_native
     \<lparr>fast_info = Raises, history_1d_1m = Raises, history_5d_1d = Raises, info = Raises\<rparr>
   = (None, [FastInfo, History1d1m, History5d1d, Info])"
proof -
  let ?a = "\<lparr>fast_info = Raises,
      history_1d_1m = Returns \<lparr>columns = [''Close''], rows = []\<rparr>,
      history_5d_1d = Returns \<lparr>columns = [''Open'', ''Close''],
         rows = [(0, \<lambda>l. Val 41), (day, \<lambda>l. if l = ''Close'' then Val 42.5 else Val 42)]\<rparr>,
      info = Returns (\<lambda>k. if k = ''previousClose'' then Some (Val 40) else None)\<rparr>"
  let ?b = "\<lparr>fast_info = Returns (Some \<lparr>last_price = Returns (Some (Val 0))\<rparr>),
      history_1d_1m = Raises,
      history_5d_1d = Raises,
      info = Returns (\<lambda>k. if k = ''previousClose'' then Some (Val 40)
                          else if k = ''currentPrice'' then Some (Val 41) else None)\<rparr>"
  have a: "get_price_native ?a = (Some (Val 42.5), [FastInfo, History1d1m, History5d1d])"
    using get_price_native_tiers [of ?a "Val 42.5"]
    by (simp add: tier_fast_info_def tier_history_def frame_empty_def getitem_flat_def)
  have b: "get_price_native ?b = (Some (Val 41), [FastInfo, History1d1m, History5d1d, Info])"
    using get_price_native_tiers [of ?b "Val 41"
        "\<lambda>k. if k = ''previousClose'' then Some (Val 40)
             else if k = ''currentPrice'' then Some (Val 41) else None"]
    by (simp add: tier_fast_info_def tier_history_def)
  let ?c = "\<lparr>fast_info = Returns (Some \<lparr>last_price = Returns (Some (Val 43))\<rparr>),
      history_1d_1m = Raises, history_5d_1d = Raises, info = Raises\<rparr>"
  let ?d = "\<lparr>fast_info = Returns None,
      history_1d_1m = Returns \<lparr>columns = [''Close''], rows = [(0, \<lambda>l. Val 44)]\<rparr>,
      history_5d_1d = Raises, info = Raises\<rparr>"
  let ?e = "\<lparr>fast_info = Raises, history_1d_1m = Raises, history_5d_1d = Raises,
      info = Raises\<rparr>"
  have c: "get_price_native ?c = (Some (Val 43), [FastInfo])"
    using get_price_native_tiers [of ?c "Val 43"]
    by (simp add: tier_fast_info_def)
  have d: "get_price_native ?d = (Some (Val 44), [FastInfo, History1d1m])"
    using get_price_native_tiers [of ?d "Val 44"]
    by (simp add: tier_fast_info_def tier_history_def frame_empty_def getitem_flat_def)
  have e: "get_price_native ?e = (None, [FastInfo, History1d1m, History5d1d, Info])"
    using get_price_native_tiers [of ?e "Val 0"]
    by (simp add: tier_fast_info_def tier_history_def)
  from a b c d e show ?thesis by blast
qed

section \<open>Properties of the exchange rate\<close>

lemma py_truediv_truthy: "truthy u \<Longrightarrow> py_truediv (Val 1) u \<noteq> Inl ZeroDivisionError"
  by (cases u) simp_all

lemma last_close_no_zero_division: "last_close fx \<noteq> Inl ZeroDivisionError"
  by (auto simp: last_close_def getitem_flat_def getitem_nested_def Let_def
      split: hist.splits sum.splits selection.splits list.splits if_splits)

text \<open>
  Claim C10. The body of the \<^verbatim>\<open>try\<close> never raises a division by zero, and every
  exception it does raise ends in the default. The resolver returns 1.5 when the
  download fails, when it brings no data or no close, and when the last close is
  zero; a last close that is a number other than zero is inverted.
\<close>

theorem get_aud_per_usd_safe:
  "aud_per_usd_try dl \<noteq> Inl ZeroDivisionError
   \<and> ((\<exists>e. aud_per_usd_try dl = Inl e) \<longrightarrow> get_aud_per_usd dl = Val 1.5)
   \<and> (dl = Raises \<longrightarrow> get_aud_per_usd dl = Val 1.5)
   \<and> (dl = Returns fx \<and> (hist_empty fx \<or> \<not> has_close fx) \<longrightarrow> get_aud_per_usd dl = Val 1.5)
   \<and> (dl = Returns fx \<and> \<not> hist_empty fx \<and> has_close fx \<and> last_close fx = Inr (Val 0) \<longrightarrow>
        get_aud_per_usd dl = Val 1.5)
   \<and> (dl = Returns fx \<and> \<not> hist_empty fx \<and> has_close fx \<and> last_close fx = Inr (Val u) \<and> u \<noteq> 0 \<longrightarrow>
        get_aud_per_usd dl = Val (1 / u))"
proof -
  have nz: "aud_per_usd_try dl \<noteq> Inl ZeroDivisionError"
  proof (cases dl)
    case Raises
    then show ?thesis by (simp add: aud_per_usd_try_def)
  next
    case (Returns f)
    show ?thesis
    proof (cases "last_close f")
      case (Inl e)
      with Returns last_close_no_zero_division [of f] show ?thesis
        by (simp add: aud_per_usd_try_def)
    next
      case (Inr v)
      with Returns py_truediv_truthy [of v] show ?thesis
        by (auto simp: aud_per_usd_try_def split: sum.split)
    qed
  qed
  have exc: "(\<exists>e. aud_per_usd_try dl = Inl e) \<longrightarrow> get_aud_per_usd dl = Val 1.5"
    by (auto simp: get_aud_per_usd_def)
  have r: "dl = Raises \<longrightarrow> get_aud_per_usd dl = Val 1.5"
    by (simp add: get_aud_per_usd_def aud_per_usd_try_def)
  have nodata: "dl = Returns fx \<and> (hist_empty fx \<or> \<not> has_close fx) \<longrightarrow> get_aud_per_usd dl = Val 1.5"
    by (auto simp: get_aud_per_usd_def aud_per_usd_try_def)
  have zero: "dl = Returns fx \<and> \<not> hist_empty fx \<and> has_close fx \<and> last_close fx = Inr (Val 0) \<longrightarrow>
        get_aud_per_usd dl = Val 1.5"
    by (simp add: get_aud_per_usd_def aud_per_usd_try_def)
  have inv: "dl = Returns fx \<and> \<not> hist_empty fx \<and> has_close fx \<and> last_close fx = Inr (Val u) \<and> u \<noteq> 0 \<longrightarrow>
        get_aud_per_usd dl = Val (1 / u)"
    by (simp add: get_aud_per_usd_def aud_per_usd_try_def)
  from nz exc r nodata zero inv show ?thesis by blast
qed

text \<open>
  A last close of zero, a last close of 0.64, a download without rows, a download
  that fails.
\<close>

theorem get_aud_per_usd_safe_witness:
  "get_aud_per_usd (Returns (Flat \<lparr>columns = [''Close''], rows = [(0, \<lambda>l. Val 0.66), (day, \<lambda>l. Val 0)]\<rparr>))
     = Val 1.5
   \<and> get_aud_per_usd (Returns (Flat \<lparr>columns = [''Close''], rows = [(0, \<lambda>l. Val 0), (day, \<lambda>l. Val 0.64)]\<rparr>))
     = Val (1 / 0.64)
   \<and> get_aud_per_usd (Returns (Nested [] \<lparr>columns = [(''Close'', ''AUDUSD=X'')], rows = []\<rparr>)) = Val 1.5
   \<and> get_aud_per_usd Raises = Val 1.5"
proof -
  let ?z = "Flat \<lparr>columns = [''Close''], rows = [(0, \<lambda>l. Val 0.66), (day, \<lambda>l. Val 0)]\<rparr>"
  let ?g = "Flat \<lparr>columns = [''Close''], rows = [(0, \<lambda>l. Val 0), (day, \<lambda>l. Val 0.64)]\<rparr>"
  let ?e = "Nested [] \<lparr>columns = [(''Close'', ''AUDUSD=X'')], rows = []\<rparr>"
  have a: "get_aud_per_usd (Returns ?z) = Val 1.5"
    using get_aud_per_usd_safe [of "Returns ?z" ?z 1]
    by (simp add: hist_empty_def has_close_def frame_empty_def last_close_def getitem_flat_def)
  have b: "get_aud_per_usd (Returns ?g) = Val (1 / 0.64)"
    using get_aud_per_usd_safe [of "Returns ?g" ?g "0.64"]
    by (simp add: hist_empty_def has_close_def frame_empty_def last_close_def getitem_flat_def)
  have c: "get_aud_per_usd (Returns ?e) = Val 1.5"
    using get_aud_per_usd_safe [of "Returns ?e" ?e 1]
    by (simp add: hist_empty_def frame_empty_def)
  have d: "get_aud_per_usd Raises = Val 1.5"
    using get_aud_per_usd_safe [of Raises ?e 1] by simp
  from a b c d show ?thesis by blast
qed

section \<open>Properties of the conversion\<close>

text \<open>
  Claim C7. Converting a domestic amount leaves it as it is, converting a foreign
  amount multiplies it by the rate, and the current price (line 161) and the cost
  basis (\<^verbatim>\<open>cost_to_aud\<close>, the column \<^verbatim>\<open>AvgCostAUD\<close>) are both converted by this rule
  with the one rate of the run.
\<close>

theorem conversion_rule:
  "convert rate x DOMESTIC = x
   \<and> convert rate x FOREIGN = py_mul x rate
   \<and> price_to_aud rate mkt x = convert rate x (market_of mkt)
   \<and> cost_to_aud rate row = convert rate (AvgCost row) (market_of (Market row))
   \<and> AvgCostAUD True rate row = convert rate (AvgCost row) (market_of (Market row))"
  by (cases "AvgCost row")
     (simp_all add: convert_def market_of_def price_to_aud_def cost_to_aud_def AvgCostAUD_def)

text \<open>A price and a cost of either market at the rate 2.\<close>

theorem conversion_rule_witness:
  "price_to_aud (Val 2) ''US'' (Val 10) = Val 20
   \<and> price_to_aud (Val 2) ''ASX'' (Val 10) = Val 10
   \<and> cost_to_aud (Val 2) ex_B = Val 300
   \<and> cost_to_aud (Val 2) ex_A = Val 100"
  using conversion_rule [of "Val 2" "Val 10" "''US''" ex_B]
    conversion_rule [of "Val 2" "Val 10" "''ASX''" ex_A]
  by (simp add: convert_def market_of_def ex_A_def ex_B_def)

section \<open>Properties of the rendering\<close>

lemma fmt_pct_last: "fmt_pct r \<noteq> [] \<and> last (fmt_pct r) = CHR ''%''"
  by (simp add: fmt_pct_def)

lemma fmt_pct_not_blank: "fmt_pct r \<noteq> []"
  using fmt_pct_last [of r] by simp

lemma fmt_pct_not_dash: "fmt_pct r \<noteq> ''-''"
proof
  assume "fmt_pct r = ''-''"
  then have "last (fmt_pct r) = CHR ''-''" by simp
  with fmt_pct_last [of r] show False by simp
qed

lemma fmt_pct_zero: "fmt_pct 0 = ''0.0%''"
  by (simp add: fmt_pct_def fmt_1f_def round_half_even_def digits.simps digit_char_def)

lemma badge_present: "badge (Some r) \<noteq> badge None"
proof (cases "r = 0")
  case True
  then show ?thesis by (simp add: badge_def fmt_pct_zero)
next
  case False
  then show ?thesis by (auto simp: badge_def Let_def)
qed

lemma perf_span_present:
  "perf_span f (or_dash (fmt_pct r)) \<noteq> perf_span f ''-''"
proof -
  have s: "or_dash (fmt_pct r) = fmt_pct r"
    by (simp add: or_dash_def fmt_pct_not_blank)
  show ?thesis
    unfolding s
    by (cases "f (filter (\<lambda>c. c \<noteq> CHR ''%'') (fmt_pct r))")
       (auto simp: perf_span_def Let_def fmt_pct_not_blank fmt_pct_not_dash)
qed

text \<open>
  Claim C8. An absent return is rendered blank or as a dash: the window returns of a
  holding (blank, a dash on the console and in the page), its return since inception
  (the same), and the badges of the portfolio (a dash). None of these renderings
  holds the digit zero. A return of zero is rendered \<^verbatim>\<open>0.0%\<close>, and the rendering of
  any computed return differs from the rendering of an absent one.
\<close>

theorem absent_never_zero:
  "to_str None = [] \<and> or_dash (to_str None) = ''-''
   \<and> actual_perf_str NaN = [] \<and> or_dash (actual_perf_str NaN) = ''-''
   \<and> perf_span f (or_dash []) = ''<span class=\"perf neu\">-</span>''
   \<and> fmt_badge_val None = ''-''
   \<and> badge None = ''<span class=\"badge neu\">-</span>''
   \<and> CHR ''0'' \<notin> set (to_str None) \<union> set (or_dash (to_str None)) \<union> set (actual_perf_str NaN)
        \<union> set (perf_span f (or_dash [])) \<union> set (fmt_badge_val None) \<union> set (badge None)
   \<and> to_str (Some 0) = ''0.0%'' \<and> actual_perf_str (Val 0) = ''0.0%''
   \<and> fmt_badge_val (Some 0) = ''0.0%''
   \<and> badge (Some 0) = ''<span class=\"badge neu\">0.0%</span>''
   \<and> to_str (Some r) \<noteq> to_str None
   \<and> or_dash (to_str (Some r)) \<noteq> or_dash (to_str None)
   \<and> actual_perf_str (Val r) \<noteq> actual_perf_str NaN
   \<and> or_dash (actual_perf_str (Val r)) \<noteq> or_dash (actual_perf_str NaN)
   \<and> perf_span f (or_dash (to_str (Some r))) \<noteq> perf_span f (or_dash (to_str None))
   \<and> fmt_badge_val (Some r) \<noteq> fmt_badge_val None
   \<and> badge (Some r) \<noteq> badge None"
proof -
  have a: "to_str None = [] \<and> or_dash (to_str None) = ''-''
      \<and> actual_perf_str NaN = [] \<and> or_dash (actual_perf_str NaN) = ''-''"
    by (simp add: to_str_def or_dash_def actual_perf_str_def)
  have b: "perf_span f (or_dash []) = ''<span class=\"perf neu\">-</span>''"
    by (simp add: perf_span_def or_dash_def)
  have c: "fmt_badge_val None = ''-'' \<and> badge None = ''<span class=\"badge neu\">-</span>''"
    by (simp add: fmt_badge_val_def badge_def)
  have d: "CHR ''0'' \<notin> set (to_str None) \<union> set (or_dash (to_str None)) \<union> set (actual_perf_str NaN)
        \<union> set (perf_span f (or_dash [])) \<union> set (fmt_badge_val None) \<union> set (badge None)"
    by (simp add: to_str_def or_dash_def actual_perf_str_def perf_span_def fmt_badge_val_def
        badge_def)
  have e: "to_str (Some 0) = ''0.0%'' \<and> actual_perf_str (Val 0) = ''0.0%''
      \<and> fmt_badge_val (Some 0) = ''0.0%''
      \<and> badge (Some 0) = ''<span class=\"badge neu\">0.0%</span>''"
    by (simp add: to_str_def actual_perf_str_def fmt_badge_val_def badge_def fmt_pct_zero)
  have g: "to_str (Some r) \<noteq> to_str None \<and> actual_perf_str (Val r) \<noteq> actual_perf_str NaN"
    by (simp add: to_str_def actual_perf_str_def fmt_pct_not_blank)
  have h: "or_dash (to_str (Some r)) \<noteq> or_dash (to_str None)
      \<and> or_dash (actual_perf_str (Val r)) \<noteq> or_dash (actual_perf_str NaN)"
    by (simp add: to_str_def actual_perf_str_def or_dash_def fmt_pct_not_blank fmt_pct_not_dash)
  have i: "perf_span f (or_dash (to_str (Some r))) \<noteq> perf_span f (or_dash (to_str None))"
    using perf_span_present [of f r] by (simp add: to_str_def or_dash_def)
  have j: "fmt_badge_val (Some r) \<noteq> fmt_badge_val None"
    by (simp add: fmt_badge_val_def fmt_pct_not_dash)
  have k: "badge (Some r) \<noteq> badge None" by (rule badge_present)
  from a b c d e g h i j k show ?thesis by blast
qed

section \<open>Properties of the close-price extraction\<close>

lemma clean_nonempty_series: "clean_result (nonempty_series (series_dropna col))"
  by (auto simp: clean_result_def nonempty_series_def series_dropna_def list_all_iff)

lemma clean_NoSeries: "clean_result NoSeries"
  by (simp add: clean_result_def)

text \<open>
  Plain labels: the first of the four labels that is a column decides, \<^verbatim>\<open>Close\<close>
  before \<^verbatim>\<open>Adj Close\<close>, and nothing is raised.
\<close>

lemma single_loop_first:
  "single_loop h ls =
     (case filter (\<lambda>l. l \<in> set (columns h)) ls of
        [] \<Rightarrow> Inr NoSeries
      | l # _ \<Rightarrow> Inr (nonempty_series (series_dropna (column_of h l))))"
  by (induction ls) (simp_all add: getitem_flat_def column_of_def)

lemma get_close_series_flat:
  "get_close_series (Some (Flat h)) =
     (if frame_empty h then Inr NoSeries
      else case filter (\<lambda>l. l \<in> set (columns h)) close_labels of
        [] \<Rightarrow> Inr NoSeries
      | l # _ \<Rightarrow> Inr (nonempty_series (series_dropna (column_of h l))))"
  by (simp add: get_close_series_def single_loop_first)

lemma get_close_series_flat_clean:
  "\<exists>x. get_close_series (Some (Flat h)) = Inr x \<and> clean_result x"
  by (simp add: get_close_series_flat clean_nonempty_series clean_NoSeries split: list.split)

text \<open>
  Two-level labels: under proper labels the extraction returns, and its result is
  clean.
\<close>

lemma multi_loop_proper:
  assumes "\<forall>l\<in>set ls. l \<notin> set unused"
    and "\<forall>l\<in>set ls. map snd (filter (\<lambda>c. fst c = l) (columns h)) \<noteq> [[]]"
  shows "(\<exists>x. multi_loop unused h ls = Inr (Some x) \<and> clean_result x)
       \<or> (multi_loop unused h ls = Inr None \<and> single_loop_nested h ls = Inr NoSeries)"
  using assms
proof (induction ls)
  case Nil
  show ?case by simp
next
  case (Cons l ls)
  then have IH: "(\<exists>x. multi_loop unused h ls = Inr (Some x) \<and> clean_result x)
       \<or> (multi_loop unused h ls = Inr None \<and> single_loop_nested h ls = Inr NoSeries)"
    by simp
  from Cons.prems have nu: "l \<notin> set unused"
    and ns: "map snd (filter (\<lambda>c. fst c = l) (columns h)) \<noteq> [[]]" by simp_all
  show ?case
  proof (cases "l \<in> set (map fst (columns h))")
    case False
    with nu IH show ?thesis by simp
  next
    case True
    let ?sel = "\<lparr>columns = map snd (filter (\<lambda>c. fst c = l) (columns h)),
                 rows = map (\<lambda>(d, cells). (d, \<lambda>c. cells (l, c))) (rows h)\<rparr>"
    have sel: "getitem_nested h l = Inr (SelFrame ?sel)"
      using True ns by (simp add: getitem_nested_def)
    show ?thesis
    proof (cases "frame_empty (frame_dropna ?sel)")
      case True
      with \<open>l \<in> set (map fst (columns h))\<close> sel IH show ?thesis by auto
    next
      case False
      then obtain c cs where cols: "columns (frame_dropna ?sel) = c # cs"
        by (cases "columns (frame_dropna ?sel)") (simp_all add: frame_empty_def)
      then have "iloc_col0 (frame_dropna ?sel) = Inr (column_of (frame_dropna ?sel) c)"
        by (simp add: iloc_col0_def column_of_def)
      with False \<open>l \<in> set (map fst (columns h))\<close> sel show ?thesis
        by (simp add: clean_nonempty_series)
    qed
  qed
qed

lemma get_close_series_nested_clean:
  assumes "proper_labels unused h"
  shows "\<exists>x. get_close_series (Some (Nested unused h)) = Inr x \<and> clean_result x"
proof -
  from assms have a: "\<forall>l\<in>set close_labels. l \<notin> set unused"
    and b: "\<forall>l\<in>set close_labels. map snd (filter (\<lambda>c. fst c = l) (columns h)) \<noteq> [[]]"
    by (simp_all add: proper_labels_def list_all_iff)
  from multi_loop_proper [OF a b] show ?thesis
    by (auto simp: get_close_series_def clean_NoSeries)
qed

text \<open>
  Whatever the history, a result that is returned is clean: no series, or a series
  that is not empty and has no missing close; never a frame.
\<close>

lemma multi_loop_returns:
  "multi_loop unused h ls = Inr (Some x) \<Longrightarrow> clean_result x"
proof (induction ls)
  case Nil
  then show ?case by simp
next
  case (Cons l ls)
  then show ?case
    by (auto simp: Let_def clean_nonempty_series
        split: if_splits sum.splits selection.splits)
qed

lemma multi_loop_falls_through:
  "multi_loop unused h ls = Inr None \<Longrightarrow> single_loop_nested h ls = Inr NoSeries"
proof (induction ls)
  case Nil
  then show ?case by simp
next
  case (Cons l ls)
  then show ?case
    by (auto simp: Let_def nonempty_series_def
        split: if_splits sum.splits selection.splits)
qed

lemma get_close_series_clean:
  assumes "get_close_series ho = Inr x"
  shows "clean_result x"
proof (cases ho)
  case None
  with assms show ?thesis by (simp add: get_close_series_def clean_NoSeries)
next
  case (Some hs)
  show ?thesis
  proof (cases hs)
    case (Flat h)
    with Some assms get_close_series_flat_clean [of h] show ?thesis by auto
  next
    case (Nested unused h)
    with Some assms show ?thesis
      by (auto simp: get_close_series_def clean_NoSeries
          dest: multi_loop_returns multi_loop_falls_through
          split: if_splits sum.splits option.splits)
  qed
qed

text \<open>
  Claim C6. The extraction is not total. A history under two-level labels whose only
  close column has the empty string for its symbol, with two valid closes: line 87
  selects a series, and line 94 reads \<^verbatim>\<open>s\<close> where \<^verbatim>\<open>df\<close> is meant, before any
  assignment to it: an \<^verbatim>\<open>UnboundLocalError\<close> in place of the series. A history
  whose first level keeps the label \<^verbatim>\<open>Close\<close> without a column under it: line 86
  finds the label in the level and line 87 raises a \<^verbatim>\<open>KeyError\<close> in place of the
  'no series' result.
\<close>

theorem close_series_extraction_raises:
  "get_close_series (Some (Nested []
       \<lparr>columns = [(''Close'', [])], rows = [(0, \<lambda>c. Val 5), (day, \<lambda>c. Val 6)]\<rparr>))
     = Inl UnboundLocalError
   \<and> get_close_series (Some (Nested [''Close'']
       \<lparr>columns = [(''Open'', ''BHP.AX'')], rows = [(0, \<lambda>c. Val 5)]\<rparr>))
     = Inl KeyError"
  by (simp add: get_close_series_def close_labels_def frame_empty_def getitem_nested_def
      series_dropna_def)

section \<open>Properties of the return since inception\<close>

lemma pd_sum_eq: "pd_sum xs = sum_list (map value_or_zero xs)"
  by (induction xs) (simp_all add: pd_sum_def value_or_zero_def)

lemma sum_list_mset_cong:
  fixes f :: "'a \<Rightarrow> real"
  assumes "mset xs = mset ys"
  shows "sum_list (map f xs) = sum_list (map f ys)"
proof -
  have "sum_list (map f xs) = sum_mset (image_mset f (mset xs))"
    by (metis mset_map sum_mset_sum_list)
  also have "\<dots> = sum_mset (image_mset f (mset ys))" using assms by simp
  also have "\<dots> = sum_list (map f ys)"
    by (metis mset_map sum_mset_sum_list)
  finally show ?thesis .
qed

lemma have_cost_mset:
  "mset (filter (\<lambda>r. AvgCostAUD has rate r \<noteq> NaN) (shown df)) = mset (with_cost has rate df)"
  by (simp add: shown_def with_cost_def filter_filter_mset)

lemma have_cost_Nil:
  "filter (\<lambda>r. AvgCostAUD has rate r \<noteq> NaN) (shown df) = [] \<longleftrightarrow> with_cost has rate df = []"
  using have_cost_mset [of has rate df] by (metis mset_zero_iff)

text \<open>
  Lines 249 to 260 alone: (total market value - total cost basis) / total cost basis
  over the holdings with a price and a known cost, absent when there is none or the
  total cost basis is not positive.
\<close>

lemma port_actual_formula:
  "port_actual has rate (shown df) =
     (let hc = with_cost has rate df;
          tc = sum_list (map (cost_basis_value has rate) hc);
          tmv = sum_list (map market_value hc)
      in if hc = [] \<or> tc \<le> 0 then None else Some ((tmv - tc) / tc))"
proof -
  let ?hc' = "filter (\<lambda>r. AvgCostAUD has rate r \<noteq> NaN) (shown df)"
  let ?hc = "with_cost has rate df"
  have "pd_sum (map (\<lambda>r. py_mul (AvgCostAUD has rate r) (Val (Quantity r))) ?hc')
            = sum_list (map (cost_basis_value has rate) ?hc')"
    by (simp add: pd_sum_eq cost_basis_value_def [abs_def] comp_def)
  also have "\<dots> = sum_list (map (cost_basis_value has rate) ?hc)"
    by (rule sum_list_mset_cong [OF have_cost_mset])
  finally have tc: "pd_sum (map (\<lambda>r. py_mul (AvgCostAUD has rate r) (Val (Quantity r))) ?hc')
            = sum_list (map (cost_basis_value has rate) ?hc)" .
  have "pd_sum (map MarketValueAUD ?hc') = sum_list (map market_value ?hc')"
    by (simp add: pd_sum_eq market_value_def [abs_def] comp_def)
  also have "\<dots> = sum_list (map market_value ?hc)"
    by (rule sum_list_mset_cong [OF have_cost_mset])
  finally have tmv: "pd_sum (map MarketValueAUD ?hc') = sum_list (map market_value ?hc)" .
  have nil: "?hc' = [] \<longleftrightarrow> ?hc = []" by (rule have_cost_Nil)
  have sh: "shown df = [] \<Longrightarrow> ?hc = []" using nil by simp
  show ?thesis
    unfolding port_actual_def Let_def tc tmv
    using nil sh by (auto simp: not_le)
qed

lemma with_cost_unknown:
  "AvgCost h = NaN \<Longrightarrow> with_cost has rate (xs @ h # ys) = with_cost has rate (xs @ ys)"
  by (simp add: with_cost_def AvgCostAUD_def cost_to_aud_def)

text \<open>
  Where line 188 raises nothing, a further holding with an unknown cost leaves the
  return as it was.
\<close>

lemma actual_return_unknown_cost:
  assumes "AvgCost h = NaN"
    and "\<forall>e. actual_return has rate (xs @ h # ys) \<noteq> Inl e"
    and "\<forall>e. actual_return has rate (xs @ ys) \<noteq> Inl e"
  shows "actual_return has rate (xs @ h # ys) = actual_return has rate (xs @ ys)"
  using assms
  by (auto simp: actual_return_def port_actual_formula with_cost_unknown split: sum.splits)

text \<open>Line 188 raises exactly when a cost is unknown and a known cost is zero.\<close>

lemma actual_return_raises_iff:
  "(\<exists>e. actual_return has rate df = Inl e) \<longleftrightarrow>
     has \<and> (\<exists>row\<in>set df. AvgCost row = NaN) \<and> (\<exists>row\<in>set df. cost_to_aud rate row = Val 0)"
  by (auto simp: actual_return_def ActualPerfNum_def Let_def list_ex_iff cost_to_aud_def
      split: sum.splits)

text \<open>
  Claim C3. A holding received at no cost (average cost 0) and a holding bought at
  100: the return since inception is (1120 - 1000) / 1000. With a third holding whose
  average cost is unknown, line 188 divides by the zero cost in Python's own
  arithmetic and raises \<^verbatim>\<open>ZeroDivisionError\<close>: no return is computed and no page
  written.
\<close>

theorem actual_return_zero_cost_raises:
  "actual_return True (Val 2) [ex_A, ex_Z] = Inr (Some ((1120 - 1000) / 1000))
   \<and> actual_return True (Val 2) [ex_A, ex_Z, ex_C] = Inl ZeroDivisionError"
proof -
  have wc: "with_cost True (Val 2) [ex_A, ex_Z] = [ex_A, ex_Z]"
    by (simp add: with_cost_def AvgCostAUD_def cost_to_aud_def ex_A_def ex_Z_def)
  have vals: "cost_basis_value True (Val 2) ex_A = 1000"
      "cost_basis_value True (Val 2) ex_Z = 0"
      "market_value ex_A = 1100" "market_value ex_Z = 20"
    by (simp_all add: cost_basis_value_def market_value_def MarketValueAUD_def AvgCostAUD_def
        cost_to_aud_def value_or_zero_def ex_A_def ex_Z_def)
  have a: "ActualPerfNum True (Val 2) [ex_A, ex_Z] = Inr [Number (1 / 10), Infinity]"
    by (simp add: ActualPerfNum_def cost_to_aud_def perf_cell_def ex_A_def ex_Z_def)
  have b: "ActualPerfNum True (Val 2) [ex_A, ex_Z, ex_C] = Inl ZeroDivisionError"
    by (simp add: ActualPerfNum_def cost_to_aud_def perf_cell_def ex_A_def ex_Z_def ex_C_def)
  show ?thesis
    by (simp add: actual_return_def a b port_actual_formula wc vals)
qed

section \<open>Properties of the rounding\<close>














section \<open>Properties of the hypothetical return\<close>




























end
